theory Spec2Isabelle
  imports Main
begin

section \<open>JavaScript values and exceptions\<close>

text \<open>
  The values that flow through the library as data: query parameters, rows, field
  descriptions, configuration options. Numbers are modelled as integers (the pool
  tunables and row counts are integers; \<open>NaN\<close> and fractions are left out). An object
  is an association list of its own properties; the first binding of a name is the
  property's value.
\<close>

datatype jsval =
    JUndefined
  | JNull
  | JBool bool
  | JNum int
  | JStr string
  | JArr "jsval list"
  | JObj "(string \<times> jsval) list"

text \<open>JavaScript truthiness, as used by \<open>||\<close>, \<open>&&\<close> and \<open>if\<close>.\<close>

fun truthy :: "jsval \<Rightarrow> bool" where
  "truthy JUndefined = False"
| "truthy JNull = False"
| "truthy (JBool b) = b"
| "truthy (JNum n) = (n \<noteq> 0)"
| "truthy (JStr s) = (s \<noteq> [])"
| "truthy (JArr xs) = True"
| "truthy (JObj fs) = True"

text \<open>\<open>a || b\<close> and \<open>a && b\<close> on values (both operands are pure here).\<close>

definition js_or :: "jsval \<Rightarrow> jsval \<Rightarrow> jsval" where
  "js_or a b = (if truthy a then a else b)"

definition js_and :: "jsval \<Rightarrow> jsval \<Rightarrow> jsval" where
  "js_and a b = (if truthy a then b else a)"

text \<open>
  Reading a property \<open>v.name\<close> of a truthy value: an object yields the property or
  \<open>undefined\<close>; the option names read by this library are not properties of
  numbers, strings, booleans or arrays, so those yield \<open>undefined\<close>. (Property reads
  on \<open>null\<close> and \<open>undefined\<close> throw in JavaScript; the library guards them with
  \<open>opts && ...\<close>, so \<open>get_prop\<close> is never reached with them.)
\<close>

fun get_prop :: "jsval \<Rightarrow> string \<Rightarrow> jsval" where
  "get_prop (JObj fs) name = (case map_of fs name of Some v \<Rightarrow> v | None \<Rightarrow> JUndefined)"
| "get_prop _ name = JUndefined"

text \<open>
  Thrown values. The three library errors carry a message and a \<open>cause\<close> (absent
  when the constructor is called with one argument). \<open>ReferenceError\<close> and
  \<open>TypeError\<close> are the runtime's own errors, \<open>JsError\<close> a plain \<open>Error\<close> (what the
  driver rejects with), \<open>Thrown\<close> any other thrown value.
\<close>

datatype exn =
    DBConnectionError string "exn option"
  | QueryExecutionError string "exn option"
  | DBResultMarshallerError string "exn option"
  | ReferenceError string
  | TypeError string
  | JsError string
  | Thrown jsval

section \<open>DBResult\<close>

text \<open>
  \<open>DBResult\<close> (src/src/configuration/PostgresDBConfig.js, second part). The
  constructor keeps \<open>rows\<close> and \<open>fields\<close> only when they are arrays and \<open>rowCount\<close>
  only when it is a number; the setters store whatever they are given. The property
  \<open>fields\<close> is the record field \<open>rfields\<close>.
\<close>

record DBResult =
  rows :: jsval
  rowCount :: jsval
  rfields :: jsval

fun isArray :: "jsval \<Rightarrow> bool" where
  "isArray (JArr xs) = True"
| "isArray _ = False"

fun isNumber :: "jsval \<Rightarrow> bool" where
  "isNumber (JNum n) = True"
| "isNumber _ = False"

definition DBResult_new :: "jsval \<Rightarrow> jsval \<Rightarrow> jsval \<Rightarrow> DBResult" where
  "DBResult_new rs rc fs =
     \<lparr> rows = (if isArray rs then rs else JNull),
       rowCount = (if isNumber rc then rc else JNull),
       rfields = (if isArray fs then fs else JNull) \<rparr>"

definition setRows :: "DBResult \<Rightarrow> jsval \<Rightarrow> DBResult" where
  "setRows r v = r\<lparr>rows := v\<rparr>"

definition setRowCount :: "DBResult \<Rightarrow> jsval \<Rightarrow> DBResult" where
  "setRowCount r v = r\<lparr>rowCount := v\<rparr>"

definition setFields :: "DBResult \<Rightarrow> jsval \<Rightarrow> DBResult" where
  "setFields r v = r\<lparr>rfields := v\<rparr>"

section \<open>DBOperation\<close>

text \<open>
  A marshaller is a caller-supplied function from a \<open>DBResult\<close> to any value; it
  may throw. An option handed to the \<open>DBOperation\<close> constructor is either plain
  data or a function.
\<close>

type_synonym marshaller_fn = "DBResult \<Rightarrow> exn + jsval"

datatype jsany = Data jsval | Function marshaller_fn

text \<open>\<open>Array.isArray(v)\<close> and \<open>typeof v === 'function'\<close> on such an option.\<close>

fun Array_isArray :: "jsany \<Rightarrow> bool" where
  "Array_isArray (Data (JArr xs)) = True"
| "Array_isArray _ = False"

fun is_function :: "jsany \<Rightarrow> bool" where
  "is_function (Function f) = True"
| "is_function _ = False"

text \<open>
  The \<open>opts\<close> object of \<open>new DBOperation(statement, opts)\<close>; a property that is not
  given is \<open>Data JUndefined\<close>, and the default \<open>opts = {}\<close> is \<open>no_opts\<close>. (The
  argument is an object: with \<open>null\<close> the constructor throws on reading
  \<open>opts.parameters\<close> and constructs nothing.)
\<close>

record DBOperation_opts =
  opt_parameters :: jsany
  opt_marshaller :: jsany

definition no_opts :: DBOperation_opts where
  "no_opts = \<lparr> opt_parameters = Data JUndefined, opt_marshaller = Data JUndefined \<rparr>"

text \<open>
  The constructed operation. \<open>parameters\<close> is an array or \<open>null\<close> (\<open>None\<close>),
  \<open>marshaller\<close> a function or \<open>null\<close> (\<open>None\<close>).
\<close>

record DBOperation =
  statement :: string
  parameters :: "jsval list option"
  marshaller :: "marshaller_fn option"

definition DBOperation_new :: "string \<Rightarrow> DBOperation_opts \<Rightarrow> DBOperation" where
  "DBOperation_new stmt opts =
     \<lparr> statement = stmt,
       parameters = (case opt_parameters opts of Data (JArr xs) \<Rightarrow> Some xs | _ \<Rightarrow> None),
       marshaller = (case opt_marshaller opts of Function f \<Rightarrow> Some f | _ \<Rightarrow> None) \<rparr>"

text \<open>The operation's fields read back as JavaScript values.\<close>

definition parameters_value :: "DBOperation \<Rightarrow> jsany" where
  "parameters_value op = (case parameters op of Some xs \<Rightarrow> Data (JArr xs) | None \<Rightarrow> Data JNull)"

definition marshaller_value :: "DBOperation \<Rightarrow> jsany" where
  "marshaller_value op = (case marshaller op of Some f \<Rightarrow> Function f | None \<Rightarrow> Data JNull)"

section \<open>Configuration\<close>

text \<open>\<open>DBConfig\<close> and its subclass \<open>PostgresDBConfig\<close>; the constructors store their
  arguments unchecked.\<close>

record DBConfig =
  vendor :: jsval
  hostname :: jsval
  port :: jsval
  database :: jsval
  username :: jsval
  password :: jsval

record PostgresDBConfig = DBConfig +
  maxClients :: jsval
  idleTimeoutMillis :: jsval
  connectionTimeoutMillis :: jsval

definition DBConfig_new ::
  "jsval \<Rightarrow> jsval \<Rightarrow> jsval \<Rightarrow> jsval \<Rightarrow> jsval \<Rightarrow> jsval \<Rightarrow> DBConfig" where
  "DBConfig_new v h p d u pw =
     \<lparr> vendor = v, hostname = h, port = p, database = d, username = u, password = pw \<rparr>"

text \<open>
  \<open>this.maxClients = opts && opts.maxClients || 10\<close>, and likewise for the other two
  tunables; \<open>&&\<close> binds tighter than \<open>||\<close>. \<open>opts\<close> is any value (\<open>JUndefined\<close> when
  the argument is left out).
\<close>

definition PostgresDBConfig_new ::
  "jsval \<Rightarrow> jsval \<Rightarrow> jsval \<Rightarrow> jsval \<Rightarrow> jsval \<Rightarrow> jsval \<Rightarrow> PostgresDBConfig" where
  "PostgresDBConfig_new h p d u pw opts =
     DBConfig.extend (DBConfig_new (JStr ''postgres'') h p d u pw)
       (PostgresDBConfig.fields
          (js_or (js_and opts (get_prop opts ''maxClients'')) (JNum 10))
          (js_or (js_and opts (get_prop opts ''idleTimeoutMillis'')) (JNum 10000))
          (js_or (js_and opts (get_prop opts ''connectionTimeoutMillis'')) (JNum 0)))"

section \<open>The connection pool as seen by the library\<close>

text \<open>
  node-pg's pool is external. The library calls it in three ways: \<open>pool.connect()\<close>
  to lease a client, \<open>client.query(statement[, parameters])\<close> and
  \<open>client.release()\<close>. Every such call is recorded, in order, as an event; the
  second component of \<open>ClientQuery\<close> is \<open>None\<close> when \<open>query\<close> is called with the
  statement alone.
\<close>

datatype event =
    PoolConnect
  | ClientQuery string "jsval list option"
  | ClientRelease

text \<open>The properties of node-pg's Result object that the library reads.\<close>

record pgResult =
  pg_rows :: jsval
  pg_rowCount :: jsval
  pg_fields :: jsval

text \<open>
  What the pool answers may depend on everything the call has done to it so far, so
  its two fallible entry points take the events issued before the call. \<open>Inl e\<close> is
  a rejected promise. \<open>client.release()\<close> returns nothing and is taken not to throw.
\<close>

record Pool =
  pool_connect :: "event list \<Rightarrow> exn + unit"
  client_query :: "event list \<Rightarrow> string \<Rightarrow> jsval list option \<Rightarrow> exn + pgResult"

section \<open>PostgresDB\<close>

text \<open>
  \<open>DB\<close> and \<open>PostgresDB\<close> (src/src/database/DBOperation.js, second and third part).
  \<open>pool\<close> is \<open>null\<close> (\<open>None\<close>) until \<open>connect()\<close> has stored a pool.
\<close>

record DB =
  db_hostname :: jsval
  db_port :: jsval
  db_database :: jsval
  db_username :: jsval
  db_password :: jsval

record PostgresDB = DB +
  db_maxClients :: jsval
  db_idleTimeoutMillis :: jsval
  db_connectionTimeoutMillis :: jsval
  pool :: "Pool option"

definition PostgresDB_new :: "PostgresDBConfig \<Rightarrow> PostgresDB" where
  "PostgresDB_new cfg =
     \<lparr> db_hostname = hostname cfg, db_port = port cfg, db_database = database cfg,
       db_username = username cfg, db_password = password cfg,
       db_maxClients = maxClients cfg,
       db_idleTimeoutMillis = idleTimeoutMillis cfg,
       db_connectionTimeoutMillis = connectionTimeoutMillis cfg,
       pool = None \<rparr>"

definition unmarshallPgResult :: "pgResult \<Rightarrow> DBResult" where
  "unmarshallPgResult pg =
     setFields
       (setRowCount
          (setRows (DBResult_new JUndefined JUndefined JUndefined) (pg_rows pg))
          (pg_rowCount pg))
       (pg_fields pg)"

definition not_connected_msg :: string where
  "not_connected_msg = ''Not connected to PostgreSQL database. Please check that that database client pool is connected by calling the connect() method.''"

text \<open>
  What a call returns for one operation: the \<open>DBResult\<close> itself, or whatever the
  operation's marshaller made of it.
\<close>

datatype op_result = Raw DBResult | Marshalled jsval

text \<open>
  \<open>query\<close> and \<open>operation\<close> pass the parameters to \<open>client.query\<close> unless
  \<open>parameters === null || parameters.length === 0\<close>.
\<close>

definition statement_args :: "jsval list option \<Rightarrow> jsval list option" where
  "statement_args params =
     (case params of None \<Rightarrow> None | Some xs \<Rightarrow> if length xs = 0 then None else Some xs)"

text \<open>
  An argument as the caller passes it: left out (or \<open>undefined\<close>), \<open>null\<close>, or a
  value. For the \<open>opts\<close> of \<open>query\<close> and \<open>operation\<close>, \<open>Arg v\<close> is an options value
  whose \<open>parameters\<close> property reads as \<open>v\<close> (\<open>Data JUndefined\<close> when it has none).
\<close>

datatype 'a arg = ArgUndefined | ArgNull | Arg 'a

text \<open>
  Reading \<open>opts.parameters\<close> under the default \<open>opts = {}\<close>: the default replaces
  only \<open>undefined\<close>, so with \<open>null\<close> the read throws a \<open>TypeError\<close>. (The runtime's
  message also names the property.)
\<close>

definition read_opts_parameters :: "jsany arg \<Rightarrow> exn + jsany" where
  "read_opts_parameters opts =
     (case opts of
        ArgUndefined \<Rightarrow> Inr (Data JUndefined)
      | ArgNull \<Rightarrow> Inl (TypeError ''Cannot read properties of null'')
      | Arg v \<Rightarrow> Inr v)"

text \<open>
  \<open>query(statement, opts)\<close>. Each function returns the outcome (\<open>Inl\<close> the thrown
  value) and the events it issued. \<open>opts.parameters\<close> is read first, before the
  pool is looked at. The \<open>finally\<close> block releases the client on both outcomes of
  the statement.
\<close>

definition query ::
  "PostgresDB \<Rightarrow> string \<Rightarrow> jsany arg \<Rightarrow> (exn + DBResult) \<times> event list" where
  "query db stmt opts =
     (case read_opts_parameters opts of
        Inl e \<Rightarrow> (Inl e, [])
      | Inr opts_parameters \<Rightarrow>
     (let params = (case opts_parameters of Data (JArr xs) \<Rightarrow> Some xs | _ \<Rightarrow> None) in
      case pool db of
        None \<Rightarrow> (Inl (DBConnectionError not_connected_msg None), [])
      | Some p \<Rightarrow>
          (case pool_connect p [] of
             Inl e \<Rightarrow> (Inl (DBConnectionError ''Database unavailable'' (Some e)), [PoolConnect])
           | Inr _ \<Rightarrow>
               (let args = statement_args params;
                    tr = [PoolConnect, ClientQuery stmt args, ClientRelease] in
                case client_query p [PoolConnect] stmt args of
                  Inl e \<Rightarrow>
                    (Inl (QueryExecutionError ''An error occurred executing query'' (Some e)), tr)
                | Inr pg \<Rightarrow> (Inr (unmarshallPgResult pg), tr)))))"

text \<open>
  \<open>if (marshaller) { ... marshaller(result) }\<close>: an operation with a marshaller
  yields what the marshaller returns (or throws), one without yields the \<open>DBResult\<close>.
\<close>

definition apply_marshaller :: "marshaller_fn option \<Rightarrow> DBResult \<Rightarrow> exn + op_result" where
  "apply_marshaller m result =
     (case m of
        Some f \<Rightarrow> (case f result of Inl e \<Rightarrow> Inl e | Inr v \<Rightarrow> Inr (Marshalled v))
      | None \<Rightarrow> Inr (Raw result))"

text \<open>
  \<open>operation(operation, opts)\<close>. \<open>operation.statement\<close> is read first, which
  throws a \<open>TypeError\<close> when the operation is \<open>null\<close> or \<open>undefined\<close>; then
  \<open>opts.parameters\<close>; only then is the pool looked at. The marshaller runs after
  the \<open>try\<close>/\<open>finally\<close>, so what it throws leaves the function as it is.
\<close>

definition operation ::
  "PostgresDB \<Rightarrow> DBOperation arg \<Rightarrow> jsany arg \<Rightarrow> (exn + op_result) \<times> event list" where
  "operation db operation_arg opts =
     (case operation_arg of
        ArgUndefined \<Rightarrow> (Inl (TypeError ''Cannot read properties of undefined''), [])
      | ArgNull \<Rightarrow> (Inl (TypeError ''Cannot read properties of null''), [])
      | Arg op \<Rightarrow>
     (case read_opts_parameters opts of
        Inl e \<Rightarrow> (Inl e, [])
      | Inr opts_parameters \<Rightarrow>
     (let params = (case opts_parameters of Data (JArr xs) \<Rightarrow> Some xs | _ \<Rightarrow> parameters op) in
      case pool db of
        None \<Rightarrow> (Inl (DBConnectionError not_connected_msg None), [])
      | Some p \<Rightarrow>
          (case pool_connect p [] of
             Inl e \<Rightarrow> (Inl (DBConnectionError ''Database unavailable'' (Some e)), [PoolConnect])
           | Inr _ \<Rightarrow>
               (let args = statement_args params;
                    tr = [PoolConnect, ClientQuery (statement op) args, ClientRelease] in
                case client_query p [PoolConnect] (statement op) args of
                  Inl e \<Rightarrow>
                    (Inl (QueryExecutionError ''An error occurred executing query'' (Some e)), tr)
                | Inr pg \<Rightarrow> (apply_marshaller (marshaller op) (unmarshallPgResult pg), tr))))))"

subsection \<open>transaction\<close>

text \<open>An element of the \<open>operations\<close> argument: \<open>{ operation, parameters }\<close>.\<close>

record invocation =
  inv_operation :: DBOperation
  inv_parameters :: jsany

text \<open>
  \<open>parameters = operation.parameters || parameters\<close>: an array, also an empty one,
  is truthy, so the operation's own parameters are taken whenever it has any.
\<close>

definition tx_parameters :: "invocation \<Rightarrow> jsany" where
  "tx_parameters op =
     (case parameters (inv_operation op) of
        Some xs \<Rightarrow> Data (JArr xs)
      | None \<Rightarrow> inv_parameters op)"

text \<open>\<open>Array.isArray(parameters) && parameters.length > 0\<close> decides the call.\<close>

definition tx_args :: "invocation \<Rightarrow> jsval list option" where
  "tx_args op =
     (case tx_parameters op of
        Data (JArr xs) \<Rightarrow> if length xs > 0 then Some xs else None
      | _ \<Rightarrow> None)"

definition issued :: "invocation \<Rightarrow> event" where
  "issued op = ClientQuery (statement (inv_operation op)) (tx_args op)"

text \<open>
  The \<open>for\<close> loop over the operations, inside the \<open>try\<close>: \<open>tr\<close> is what has been
  issued so far, \<open>results\<close> the array being filled. The first rejected statement or
  throwing marshaller leaves the loop with that value.
\<close>

fun run_operations ::
  "Pool \<Rightarrow> event list \<Rightarrow> op_result list \<Rightarrow> invocation list \<Rightarrow> (exn + op_result list) \<times> event list"
where
  "run_operations p tr results [] = (Inr results, tr)"
| "run_operations p tr results (op # ops) =
     (case client_query p tr (statement (inv_operation op)) (tx_args op) of
        Inl e \<Rightarrow> (Inl e, tr @ [issued op])
      | Inr pg \<Rightarrow>
          (case apply_marshaller (marshaller (inv_operation op)) (unmarshallPgResult pg) of
             Inl e \<Rightarrow> (Inl e, tr @ [issued op])
           | Inr result \<Rightarrow> run_operations p (tr @ [issued op]) (results @ [result]) ops))"

text \<open>The body of the \<open>try\<close>: BEGIN, the loop, COMMIT.\<close>

definition tx_body ::
  "Pool \<Rightarrow> event list \<Rightarrow> invocation list \<Rightarrow> (exn + op_result list) \<times> event list" where
  "tx_body p tr ops =
     (case client_query p tr ''BEGIN'' None of
        Inl e \<Rightarrow> (Inl e, tr @ [ClientQuery ''BEGIN'' None])
      | Inr _ \<Rightarrow>
          (case run_operations p (tr @ [ClientQuery ''BEGIN'' None]) [] ops of
             (Inl e, tr') \<Rightarrow> (Inl e, tr')
           | (Inr results, tr') \<Rightarrow>
               (case client_query p tr' ''COMMIT'' None of
                  Inl e \<Rightarrow> (Inl e, tr' @ [ClientQuery ''COMMIT'' None])
                | Inr _ \<Rightarrow> (Inr results, tr' @ [ClientQuery ''COMMIT'' None]))))"

text \<open>The local function \<open>rollback\<close>.\<close>

definition rollback :: "Pool \<Rightarrow> event list \<Rightarrow> (exn + unit) \<times> event list" where
  "rollback p tr =
     (case client_query p tr ''ROLLBACK'' None of
        Inl e \<Rightarrow>
          (Inl (QueryExecutionError ''Error occurred while rolling back DB transaction'' (Some e)),
           tr @ [ClientQuery ''ROLLBACK'' None])
      | Inr _ \<Rightarrow> (Inr (), tr @ [ClientQuery ''ROLLBACK'' None]))"

text \<open>
  \<open>transaction(operations)\<close>. When leasing fails the \<open>catch\<close> evaluates
  \<open>new DatabaseConnectionError(...)\<close>; no such name is declared or imported in the
  module, so evaluating it throws a \<open>ReferenceError\<close>. In the \<open>catch\<close> of the main
  \<open>try\<close>, \<open>await rollback()\<close> comes first: when it throws, the \<open>throw\<close> after it is
  not reached. The \<open>finally\<close> releases the client on every way out.
\<close>

definition transaction ::
  "PostgresDB \<Rightarrow> invocation list \<Rightarrow> (exn + op_result list) \<times> event list" where
  "transaction db operations =
     (case pool db of
        None \<Rightarrow> (Inl (DBConnectionError not_connected_msg None), [])
      | Some p \<Rightarrow>
          (case pool_connect p [] of
             Inl e \<Rightarrow>
               (Inl (ReferenceError ''DatabaseConnectionError is not defined''), [PoolConnect])
           | Inr _ \<Rightarrow>
               (case tx_body p [PoolConnect] operations of
                  (Inr results, tr) \<Rightarrow> (Inr results, tr @ [ClientRelease])
                | (Inl e, tr) \<Rightarrow>
                    (case rollback p tr of
                       (Inl e', tr') \<Rightarrow> (Inl e', tr' @ [ClientRelease])
                     | (Inr _, tr') \<Rightarrow>
                         (Inl (QueryExecutionError
                                 ''An error occurred executing a database transaction'' (Some e)),
                          tr' @ [ClientRelease])))))"

section \<open>Vocabulary for the properties\<close>

text \<open>The messages of the two errors that \<open>transaction\<close> builds in its \<open>catch\<close>.\<close>

definition rollback_failed_msg :: string where
  "rollback_failed_msg = ''Error occurred while rolling back DB transaction''"

definition transaction_failed_msg :: string where
  "transaction_failed_msg = ''An error occurred executing a database transaction''"

text \<open>
  One pass of the loop body started after the events \<open>tr\<close>: the rejection of the
  operation's statement, what its marshaller throws, or the entry pushed to
  \<open>results\<close>.
\<close>

definition op_outcome :: "Pool \<Rightarrow> event list \<Rightarrow> invocation \<Rightarrow> exn + op_result" where
  "op_outcome p tr op =
     (case client_query p tr (statement (inv_operation op)) (tx_args op) of
        Inl e \<Rightarrow> Inl e
      | Inr pg \<Rightarrow> apply_marshaller (marshaller (inv_operation op)) (unmarshallPgResult pg))"

text \<open>
  In a run of the loop that starts after \<open>tr\<close> and has come as far as the operation
  at index \<open>i\<close> (counted from 0), the statements of the operations before it have been
  issued. \<open>statement_answer\<close> is what the pool answers to that operation's statement
  then, \<open>outcome_at\<close> what the pass yields.
\<close>

definition statement_answer :: "Pool \<Rightarrow> event list \<Rightarrow> invocation list \<Rightarrow> nat \<Rightarrow> exn + pgResult" where
  "statement_answer p tr ops i =
     client_query p (tr @ map issued (take i ops)) (statement (inv_operation (ops ! i)))
       (tx_args (ops ! i))"

definition outcome_at :: "Pool \<Rightarrow> event list \<Rightarrow> invocation list \<Rightarrow> nat \<Rightarrow> exn + op_result" where
  "outcome_at p tr ops i = op_outcome p (tr @ map issued (take i ops)) (ops ! i)"

text \<open>The events of a transaction up to and including its BEGIN.\<close>

definition begun :: "event list" where
  "begun = [PoolConnect, ClientQuery ''BEGIN'' None]"

fun is_statement :: "event \<Rightarrow> bool" where
  "is_statement (ClientQuery stmt args) = True"
| "is_statement _ = False"

text \<open>
  A trace in which one client is leased, first, and released, last, and nothing else
  is leased or released.
\<close>

definition released_once :: "event list \<Rightarrow> bool" where
  "released_once tr =
     (tr \<noteq> [] \<and> hd tr = PoolConnect \<and> last tr = ClientRelease
      \<and> count_list tr PoolConnect = 1 \<and> count_list tr ClientRelease = 1)"

text \<open>
  The arguments of a call can be read: \<open>opts\<close> is not \<open>null\<close> and, for \<open>operation\<close>,
  the operation is neither \<open>null\<close> nor \<open>undefined\<close>.
\<close>

definition query_args_readable :: "jsany arg \<Rightarrow> bool" where
  "query_args_readable opts = (case opts of ArgNull \<Rightarrow> False | _ \<Rightarrow> True)"

definition operation_args_readable :: "DBOperation arg \<Rightarrow> jsany arg \<Rightarrow> bool" where
  "operation_args_readable operation_arg opts =
     (case operation_arg of Arg op \<Rightarrow> query_args_readable opts | _ \<Rightarrow> False)"

fun is_TypeError :: "exn \<Rightarrow> bool" where
  "is_TypeError (TypeError msg) = True"
| "is_TypeError _ = False"

text \<open>The \<open>cause\<close> property of an error, and the errors reachable through it.\<close>

primrec cause_of :: "exn \<Rightarrow> exn option" where
  "cause_of (DBConnectionError msg c) = c"
| "cause_of (QueryExecutionError msg c) = c"
| "cause_of (DBResultMarshallerError msg c) = c"
| "cause_of (ReferenceError msg) = None"
| "cause_of (TypeError msg) = None"
| "cause_of (JsError msg) = None"
| "cause_of (Thrown v) = None"

fun cause_chain :: "exn \<Rightarrow> exn list" where
  "cause_chain (DBConnectionError msg c) =
     DBConnectionError msg c # (case c of None \<Rightarrow> [] | Some e \<Rightarrow> cause_chain e)"
| "cause_chain (QueryExecutionError msg c) =
     QueryExecutionError msg c # (case c of None \<Rightarrow> [] | Some e \<Rightarrow> cause_chain e)"
| "cause_chain (DBResultMarshallerError msg c) =
     DBResultMarshallerError msg c # (case c of None \<Rightarrow> [] | Some e \<Rightarrow> cause_chain e)"
| "cause_chain e = [e]"

text \<open>The call threw an error whose \<open>cause\<close> is \<open>c\<close>.\<close>

definition raises_with_cause :: "(exn + 'a) \<times> event list \<Rightarrow> exn \<Rightarrow> bool" where
  "raises_with_cause outcome c =
     (case fst outcome of Inl err \<Rightarrow> cause_of err = Some c | Inr _ \<Rightarrow> False)"

section \<open>Example inputs\<close>

text \<open>A configuration with the tunables left out.\<close>

definition sample_config :: PostgresDBConfig where
  "sample_config =
     PostgresDBConfig_new (JStr ''localhost'') (JNum 5432) (JStr ''school'') (JStr ''app'')
       (JStr ''secret'') JUndefined"

text \<open>
  A pool that leases a client and answers every statement with an empty result, except
  the statements listed in \<open>rejects\<close>, which it rejects with the error given; a pool
  that cannot reach the server; and an instance on which \<open>connect()\<close> has stored the
  pool \<open>p\<close>.
\<close>

definition empty_result :: pgResult where
  "empty_result = \<lparr> pg_rows = JArr [], pg_rowCount = JNum 0, pg_fields = JArr [] \<rparr>"

definition scripted_pool :: "(string \<times> exn) list \<Rightarrow> Pool" where
  "scripted_pool rejects =
     \<lparr> pool_connect = (\<lambda>tr. Inr ()),
       client_query = (\<lambda>tr stmt args.
          case map_of rejects stmt of Some e \<Rightarrow> Inl e | None \<Rightarrow> Inr empty_result) \<rparr>"

definition unreachable_pool :: Pool where
  "unreachable_pool =
     \<lparr> pool_connect = (\<lambda>tr. Inl (JsError ''connect ECONNREFUSED'')),
       client_query = (\<lambda>tr stmt args. Inr empty_result) \<rparr>"

definition connected :: "Pool \<Rightarrow> PostgresDB" where
  "connected p = (PostgresDB_new sample_config)\<lparr>pool := Some p\<rparr>"

definition reject_B :: Pool where
  "reject_B = scripted_pool [(''INSERT B'', JsError ''duplicate key'')]"

definition reject_B_and_rollback :: Pool where
  "reject_B_and_rollback =
     scripted_pool [(''INSERT B'', JsError ''duplicate key''),
                    (''ROLLBACK'', JsError ''connection terminated'')]"

definition deadlock_B_and_rollback :: Pool where
  "deadlock_B_and_rollback =
     scripted_pool [(''INSERT B'', JsError ''deadlock detected''),
                    (''ROLLBACK'', JsError ''connection terminated'')]"

text \<open>Operations, and an invocation that gives no parameters of its own.\<close>

definition invoke :: "DBOperation \<Rightarrow> invocation" where
  "invoke op = \<lparr> inv_operation = op, inv_parameters = Data JUndefined \<rparr>"

definition op_A :: DBOperation where
  "op_A = DBOperation_new ''INSERT A'' no_opts"

definition op_B :: DBOperation where
  "op_B = DBOperation_new ''INSERT B'' no_opts"

definition op_C :: DBOperation where
  "op_C = DBOperation_new ''SELECT C''
     \<lparr> opt_parameters = Data JUndefined, opt_marshaller = Function (\<lambda>r. Inr (rows r)) \<rparr>"

definition op_throwing :: DBOperation where
  "op_throwing = DBOperation_new ''SELECT C''
     \<lparr> opt_parameters = Data JUndefined,
       opt_marshaller = Function (\<lambda>r. Inl (TypeError ''row.name is undefined'')) \<rparr>"

definition op_with_parameters :: DBOperation where
  "op_with_parameters = DBOperation_new ''SELECT D WHERE name=$1''
     \<lparr> opt_parameters = Data (JArr [JStr ''CS'']), opt_marshaller = Data JUndefined \<rparr>"

lemmas example_defs =
  op_A_def op_B_def op_C_def op_throwing_def op_with_parameters_def invoke_def connected_def
  scripted_pool_def unreachable_pool_def empty_result_def DBOperation_new_def no_opts_def
  PostgresDB_new_def

lemmas pool_defs = reject_B_def reject_B_and_rollback_def deadlock_B_and_rollback_def

lemmas engine_defs =
  transaction_def tx_body_def rollback_def operation_def query_def apply_marshaller_def
  unmarshallPgResult_def statement_args_def tx_args_def tx_parameters_def issued_def
  read_opts_parameters_def
  setRows_def setRowCount_def setFields_def DBResult_new_def

section \<open>Calls on an instance that is not connected\<close>

lemma PostgresDB_new_pool: "pool (PostgresDB_new cfg) = None"
  by (simp add: PostgresDB_new_def)

text \<open>
  C8, as amended. While \<open>pool\<close> is \<open>null\<close>, no call attempts a lease or sends a
  statement. \<open>transaction\<close> always throws a \<open>DBConnectionError\<close> with the
  not-connected message (and no cause); \<open>query\<close> and \<open>operation\<close> do so whenever
  their arguments can be read, and otherwise throw the \<open>TypeError\<close> of reading them,
  which happens before the pool is looked at.
\<close>

theorem not_connected_raises:
  "pool db = None \<Longrightarrow>
     (if query_args_readable opts
      then query db stmt opts = (Inl (DBConnectionError not_connected_msg None), [])
      else snd (query db stmt opts) = []
           \<and> (case fst (query db stmt opts) of Inl e \<Rightarrow> is_TypeError e | Inr r \<Rightarrow> False))
     \<and> (if operation_args_readable operation_arg opts
        then operation db operation_arg opts
               = (Inl (DBConnectionError not_connected_msg None), [])
        else snd (operation db operation_arg opts) = []
             \<and> (case fst (operation db operation_arg opts) of
                   Inl e \<Rightarrow> is_TypeError e | Inr r \<Rightarrow> False))
     \<and> transaction db operations = (Inl (DBConnectionError not_connected_msg None), [])"
proof -
  assume np: "pool db = None"
  have q: "if query_args_readable opts
      then query db stmt opts = (Inl (DBConnectionError not_connected_msg None), [])
      else snd (query db stmt opts) = []
           \<and> (case fst (query db stmt opts) of Inl e \<Rightarrow> is_TypeError e | Inr r \<Rightarrow> False)"
    using np by (cases opts) (simp_all add: query_args_readable_def query_def read_opts_parameters_def)
  have o: "if operation_args_readable operation_arg opts
        then operation db operation_arg opts
               = (Inl (DBConnectionError not_connected_msg None), [])
        else snd (operation db operation_arg opts) = []
             \<and> (case fst (operation db operation_arg opts) of
                   Inl e \<Rightarrow> is_TypeError e | Inr r \<Rightarrow> False)"
    using np
    by (cases operation_arg; cases opts)
       (simp_all add: operation_args_readable_def query_args_readable_def operation_def
          read_opts_parameters_def)
  have t: "transaction db operations = (Inl (DBConnectionError not_connected_msg None), [])"
    using np by (simp add: transaction_def)
  from q o t show ?thesis by blast
qed

theorem not_connected_raises_witness:
  "pool (PostgresDB_new sample_config) = None
   \<and> query (PostgresDB_new sample_config) ''SELECT 1'' ArgUndefined
       = (Inl (DBConnectionError not_connected_msg None), [])
   \<and> operation (PostgresDB_new sample_config) (Arg op_A) (Arg (Data (JArr [JNum 1])))
       = (Inl (DBConnectionError not_connected_msg None), [])
   \<and> transaction (PostgresDB_new sample_config) [invoke op_A]
       = (Inl (DBConnectionError not_connected_msg None), [])"
  using not_connected_raises [OF PostgresDB_new_pool, where cfg1 = sample_config
      and opts = ArgUndefined and stmt = "''SELECT 1''" and operation_arg = "Arg op_A"
      and operations = "[invoke op_A]"]
    not_connected_raises [OF PostgresDB_new_pool, where cfg1 = sample_config
      and opts = "Arg (Data (JArr [JNum 1]))" and stmt = "''SELECT 1''"
      and operation_arg = "Arg op_A" and operations = "[invoke op_A]"]
    PostgresDB_new_pool [of sample_config]
  by (simp add: query_args_readable_def operation_args_readable_def)

text \<open>
  The claim as it stands fails for a call whose \<open>opts\<close> is \<open>null\<close>: on an instance
  that is not connected, \<open>query\<close> and \<open>operation\<close> throw a \<open>TypeError\<close>, not a
  \<open>DBConnectionError\<close>.
\<close>

theorem not_connected_null_opts_counterexample:
  "pool (PostgresDB_new sample_config) = None
   \<and> query (PostgresDB_new sample_config) ''SELECT 1'' ArgNull
       = (Inl (TypeError ''Cannot read properties of null''), [])
   \<and> operation (PostgresDB_new sample_config) (Arg op_A) ArgNull
       = (Inl (TypeError ''Cannot read properties of null''), [])
   \<and> fst (query (PostgresDB_new sample_config) ''SELECT 1'' ArgNull)
       \<noteq> Inl (DBConnectionError not_connected_msg None)"
  by (simp add: PostgresDB_new_def query_def operation_def read_opts_parameters_def)

section \<open>PostgresDBConfig defaults\<close>

text \<open>With \<open>opts\<close> left out, or without the tunable, the defaults are 10, 10000 and 0.\<close>

lemma PostgresDBConfig_new_absent:
  "maxClients (PostgresDBConfig_new h p d u pw JUndefined) = JNum 10"
  "idleTimeoutMillis (PostgresDBConfig_new h p d u pw JUndefined) = JNum 10000"
  "connectionTimeoutMillis (PostgresDBConfig_new h p d u pw JUndefined) = JNum 0"
  "maxClients (PostgresDBConfig_new h p d u pw (JObj [])) = JNum 10"
  "idleTimeoutMillis (PostgresDBConfig_new h p d u pw (JObj [])) = JNum 10000"
  "connectionTimeoutMillis (PostgresDBConfig_new h p d u pw (JObj [])) = JNum 0"
  by (simp_all add: PostgresDBConfig_new_def DBConfig_new_def js_or_def js_and_def
        DBConfig.defs PostgresDBConfig.defs)

text \<open>
  C9. An explicit \<open>idleTimeoutMillis\<close> of 0 is falsy, so \<open>||\<close> replaces it by the
  default: the configuration stores 10000, not the 0 that was passed.
\<close>

theorem idleTimeoutMillis_zero_replaced:
  "idleTimeoutMillis
     (PostgresDBConfig_new (JStr ''localhost'') (JNum 5432) (JStr ''school'') (JStr ''app'')
        (JStr ''secret'') (JObj [(''idleTimeoutMillis'', JNum 0)])) = JNum 10000"
  by (simp add: PostgresDBConfig_new_def DBConfig_new_def js_or_def js_and_def
        DBConfig.defs PostgresDBConfig.defs)

section \<open>The DBOperation constructor\<close>

text \<open>
  C10. The constructed operation's \<open>parameters\<close> is \<open>opts.parameters\<close> when that is
  an array and \<open>null\<close> otherwise; its \<open>marshaller\<close> is \<open>opts.marshaller\<close> when that is
  a function and \<open>null\<close> otherwise. Nothing is rejected, and in every case
  \<open>parameters\<close> is an array or \<open>null\<close> and \<open>marshaller\<close> a function or \<open>null\<close>.
\<close>

theorem DBOperation_new_normalizes:
  "statement (DBOperation_new stmt opts) = stmt
   \<and> parameters_value (DBOperation_new stmt opts)
       = (if Array_isArray (opt_parameters opts) then opt_parameters opts else Data JNull)
   \<and> marshaller_value (DBOperation_new stmt opts)
       = (if is_function (opt_marshaller opts) then opt_marshaller opts else Data JNull)
   \<and> (Array_isArray (parameters_value (DBOperation_new stmt opts))
        \<or> parameters_value (DBOperation_new stmt opts) = Data JNull)
   \<and> (is_function (marshaller_value (DBOperation_new stmt opts))
        \<or> marshaller_value (DBOperation_new stmt opts) = Data JNull)"
proof -
  let ?op = "DBOperation_new stmt opts"
  have p: "parameters_value ?op
       = (if Array_isArray (opt_parameters opts) then opt_parameters opts else Data JNull)"
    by (cases "opt_parameters opts" rule: Array_isArray.cases)
       (simp_all add: DBOperation_new_def parameters_value_def)
  have m: "marshaller_value ?op
       = (if is_function (opt_marshaller opts) then opt_marshaller opts else Data JNull)"
    by (cases "opt_marshaller opts")
       (simp_all add: DBOperation_new_def marshaller_value_def)
  have "statement ?op = stmt"
    by (simp add: DBOperation_new_def)
  with p m show ?thesis by simp
qed

section \<open>Parameter precedence\<close>

text \<open>
  In \<open>operation\<close> an array given as \<open>opts.parameters\<close> is what the statement is
  called with (or with no parameters when that array is empty), whatever the
  operation's own parameters are; anything else leaves the operation's own.
\<close>

lemma operation_parameter_precedence:
  assumes "pool db = Some p" and "pool_connect p [] = Inr u"
  shows "snd (operation db (Arg op) (Arg (Data (JArr xs))))
           = [PoolConnect, ClientQuery (statement op) (statement_args (Some xs)), ClientRelease]"
    and "\<not> Array_isArray override \<Longrightarrow>
         snd (operation db (Arg op) (Arg override))
           = [PoolConnect, ClientQuery (statement op) (statement_args (parameters op)),
              ClientRelease]"
    and "snd (operation db (Arg op) ArgUndefined)
           = [PoolConnect, ClientQuery (statement op) (statement_args (parameters op)),
              ClientRelease]"
proof -
  show "snd (operation db (Arg op) (Arg (Data (JArr xs))))
           = [PoolConnect, ClientQuery (statement op) (statement_args (Some xs)), ClientRelease]"
    using assms
    by (simp add: operation_def read_opts_parameters_def Let_def split: sum.splits)
  show "snd (operation db (Arg op) ArgUndefined)
           = [PoolConnect, ClientQuery (statement op) (statement_args (parameters op)),
              ClientRelease]"
    using assms
    by (simp add: operation_def read_opts_parameters_def Let_def split: sum.splits)
  assume "\<not> Array_isArray override"
  then have "(case override of Data (JArr xs) \<Rightarrow> Some xs | _ \<Rightarrow> parameters op) = parameters op"
    by (cases override rule: Array_isArray.cases) simp_all
  then show "snd (operation db (Arg op) (Arg override))
           = [PoolConnect, ClientQuery (statement op) (statement_args (parameters op)),
              ClientRelease]"
    using assms
    by (simp add: operation_def read_opts_parameters_def Let_def split: sum.splits)
qed

text \<open>
  C1. In \<open>transaction\<close> the precedence is the other way round. An operation that
  has parameters \<open>['CS']\<close>, invoked with the override \<open>['EE']\<close>: \<open>transaction\<close>
  sends the statement with \<open>['CS']\<close>, \<open>operation\<close> with \<open>['EE']\<close>.
\<close>

theorem transaction_override_ignored:
  "transaction (connected (scripted_pool []))
     [\<lparr> inv_operation = op_with_parameters, inv_parameters = Data (JArr [JStr ''EE'']) \<rparr>]
     = (Inr [Raw \<lparr>rows = JArr [], rowCount = JNum 0, rfields = JArr []\<rparr>],
        [PoolConnect, ClientQuery ''BEGIN'' None,
         ClientQuery ''SELECT D WHERE name=$1'' (Some [JStr ''CS'']),
         ClientQuery ''COMMIT'' None, ClientRelease])
   \<and> operation (connected (scripted_pool [])) (Arg op_with_parameters)
       (Arg (Data (JArr [JStr ''EE''])))
     = (Inr (Raw \<lparr>rows = JArr [], rowCount = JNum 0, rfields = JArr []\<rparr>),
        [PoolConnect, ClientQuery ''SELECT D WHERE name=$1'' (Some [JStr ''EE'']), ClientRelease])"
  by (simp add: example_defs engine_defs)

section \<open>A marshaller that throws\<close>

text \<open>
  C2. The statement succeeds and the marshaller throws a \<open>TypeError\<close>. \<open>operation\<close>
  lets the \<open>TypeError\<close> through as it is; \<open>transaction\<close> rolls back and throws a
  \<open>QueryExecutionError\<close> around it. Neither throws a \<open>DBResultMarshallerError\<close>.
\<close>

theorem marshaller_failure_not_classified:
  "operation (connected (scripted_pool [])) (Arg op_throwing) ArgUndefined
     = (Inl (TypeError ''row.name is undefined''),
        [PoolConnect, ClientQuery ''SELECT C'' None, ClientRelease])
   \<and> transaction (connected (scripted_pool [])) [invoke op_throwing]
     = (Inl (QueryExecutionError transaction_failed_msg
               (Some (TypeError ''row.name is undefined''))),
        [PoolConnect, ClientQuery ''BEGIN'' None, ClientQuery ''SELECT C'' None,
         ClientQuery ''ROLLBACK'' None, ClientRelease])"
  by (simp add: transaction_failed_msg_def example_defs engine_defs)

section \<open>Leasing fails\<close>

text \<open>
  C3. The pool cannot lease a client. \<open>transaction\<close> issues no statement, and what
  it throws is the \<open>ReferenceError\<close> for the undeclared name
  \<open>DatabaseConnectionError\<close>, which carries no cause; \<open>operation\<close> and \<open>query\<close> throw
  a \<open>DBConnectionError\<close> around the pool's error.
\<close>

theorem transaction_lease_failure_reference_error:
  "transaction (connected unreachable_pool) [invoke op_A]
     = (Inl (ReferenceError ''DatabaseConnectionError is not defined''), [PoolConnect])
   \<and> operation (connected unreachable_pool) (Arg op_A) ArgUndefined
     = (Inl (DBConnectionError ''Database unavailable'' (Some (JsError ''connect ECONNREFUSED''))),
        [PoolConnect])
   \<and> query (connected unreachable_pool) ''INSERT A'' ArgUndefined
     = (Inl (DBConnectionError ''Database unavailable'' (Some (JsError ''connect ECONNREFUSED''))),
        [PoolConnect])"
  by (simp add: example_defs engine_defs)

section \<open>The loop over the operations\<close>

lemma outcome_at_0: "outcome_at p tr (op # ops) 0 =
   (case client_query p tr (statement (inv_operation op)) (tx_args op) of
        Inl e \<Rightarrow> Inl e
      | Inr pg \<Rightarrow> apply_marshaller (marshaller (inv_operation op)) (unmarshallPgResult pg))"
  by (simp add: outcome_at_def op_outcome_def)

lemma outcome_at_Suc: "outcome_at p tr (op # ops) (Suc i) = outcome_at p (tr @ [issued op]) ops i"
  by (simp add: outcome_at_def)

lemma outcome_statement_fails:
  "statement_answer p tr ops k = Inl e \<Longrightarrow> outcome_at p tr ops k = Inl e"
  by (simp add: statement_answer_def outcome_at_def op_outcome_def)

text \<open>The loop only ever adds statements of the operations, in their order.\<close>

lemma run_operations_trace:
  "\<exists>n\<le>length ops. snd (run_operations p tr res ops) = tr @ map issued (take n ops)"
proof (induction ops arbitrary: tr res)
  case Nil
  then show ?case by simp
next
  case (Cons op ops)
  show ?case
  proof (cases "outcome_at p tr (op # ops) 0")
    case (Inl e)
    then have "snd (run_operations p tr res (op # ops)) = tr @ map issued (take 1 (op # ops))"
      by (auto simp: outcome_at_0 split: sum.splits)
    then show ?thesis by (metis One_nat_def Suc_leI length_Cons zero_less_Suc)
  next
    case (Inr r)
    then have eq: "run_operations p tr res (op # ops) = run_operations p (tr @ [issued op]) (res @ [r]) ops"
      by (auto simp: outcome_at_0 split: sum.splits)
    from Cons.IH [of "tr @ [issued op]" "res @ [r]"] obtain n where
      n: "n \<le> length ops" "snd (run_operations p (tr @ [issued op]) (res @ [r]) ops) = (tr @ [issued op]) @ map issued (take n ops)"
      by blast
    then have "snd (run_operations p tr res (op # ops)) = tr @ map issued (take (Suc n) (op # ops))"
      using eq by simp
    with n(1) show ?thesis by (metis Suc_le_mono length_Cons)
  qed
qed

text \<open>When every pass succeeds, the loop pushes one entry per operation, in order.\<close>

lemma run_operations_ok:
  assumes "\<forall>i<length ops. \<exists>r. outcome_at p tr ops i = Inr r"
  shows "\<exists>rs. run_operations p tr res ops = (Inr (res @ rs), tr @ map issued ops)
           \<and> length rs = length ops \<and> (\<forall>i<length ops. outcome_at p tr ops i = Inr (rs ! i))"
  using assms
proof (induction ops arbitrary: tr res)
  case Nil
  then show ?case by simp
next
  case (Cons op ops)
  from Cons.prems obtain r where r: "outcome_at p tr (op # ops) 0 = Inr r"
    by auto
  then have eq: "run_operations p tr res (op # ops) = run_operations p (tr @ [issued op]) (res @ [r]) ops"
    by (auto simp: outcome_at_0 split: sum.splits)
  have "\<forall>i<length ops. \<exists>r. outcome_at p (tr @ [issued op]) ops i = Inr r"
    using Cons.prems by (auto simp flip: outcome_at_Suc)
  from Cons.IH [OF this, of "res @ [r]"] obtain rs where
    rs: "run_operations p (tr @ [issued op]) (res @ [r]) ops = (Inr ((res @ [r]) @ rs), (tr @ [issued op]) @ map issued ops)"
      "length rs = length ops" "\<forall>i<length ops. outcome_at p (tr @ [issued op]) ops i = Inr (rs ! i)"
    by blast
  have "\<forall>i<length (op # ops). outcome_at p tr (op # ops) i = Inr ((r # rs) ! i)"
  proof (intro allI impI)
    fix i assume "i < length (op # ops)"
    then show "outcome_at p tr (op # ops) i = Inr ((r # rs) ! i)"
      using r rs(3) by (cases i) (simp_all add: outcome_at_Suc)
  qed
  with eq rs(1,2) show ?case
    by (intro exI [of _ "r # rs"]) simp
qed

text \<open>The first pass that fails ends the loop; the later operations are not reached.\<close>

lemma run_operations_fail:
  assumes "k < length ops"
    and "\<forall>j<k. \<exists>r. outcome_at p tr ops j = Inr r"
    and "outcome_at p tr ops k = Inl e"
  shows "run_operations p tr res ops = (Inl e, tr @ map issued (take (Suc k) ops))"
  using assms
proof (induction ops arbitrary: tr res k)
  case Nil
  then show ?case by simp
next
  case (Cons op ops)
  show ?case
  proof (cases k)
    case 0
    with Cons.prems(3) show ?thesis
      by (auto simp: outcome_at_0 split: sum.splits)
  next
    case (Suc k')
    with Cons.prems(2) obtain r where r: "outcome_at p tr (op # ops) 0 = Inr r"
      by auto
    then have eq: "run_operations p tr res (op # ops) = run_operations p (tr @ [issued op]) (res @ [r]) ops"
      by (auto simp: outcome_at_0 split: sum.splits)
    have a: "k' < length ops" using Cons.prems(1) Suc by simp
    have b: "\<forall>j<k'. \<exists>r. outcome_at p (tr @ [issued op]) ops j = Inr r"
      using Cons.prems(2) Suc by (auto simp flip: outcome_at_Suc)
    have c: "outcome_at p (tr @ [issued op]) ops k' = Inl e"
      using Cons.prems(3) Suc by (simp add: outcome_at_Suc)
    from Cons.IH [OF a b c, of "res @ [r]"] eq Suc show ?thesis by simp
  qed
qed

lemma tx_body_fail:
  assumes "client_query p tr ''BEGIN'' None = Inr b"
    and "k < length ops"
    and "\<forall>j<k. \<exists>r. outcome_at p (tr @ [ClientQuery ''BEGIN'' None]) ops j = Inr r"
    and "outcome_at p (tr @ [ClientQuery ''BEGIN'' None]) ops k = Inl e"
  shows "tx_body p tr ops = (Inl e, tr @ [ClientQuery ''BEGIN'' None] @ map issued (take (Suc k) ops))"
  using assms(1) run_operations_fail [OF assms(2,3,4), of "[]"]
  by (simp add: tx_body_def)

lemma tx_body_ok:
  assumes "client_query p tr ''BEGIN'' None = Inr b"
    and "\<forall>i<length ops. \<exists>r. outcome_at p (tr @ [ClientQuery ''BEGIN'' None]) ops i = Inr r"
    and "client_query p (tr @ [ClientQuery ''BEGIN'' None] @ map issued ops) ''COMMIT'' None = Inr c"
  shows "\<exists>rs. tx_body p tr ops =
            (Inr rs, tr @ [ClientQuery ''BEGIN'' None] @ map issued ops @ [ClientQuery ''COMMIT'' None])
          \<and> length rs = length ops
          \<and> (\<forall>i<length ops. outcome_at p (tr @ [ClientQuery ''BEGIN'' None]) ops i = Inr (rs ! i))"
proof -
  from run_operations_ok [OF assms(2), of "[]"] obtain rs where
    rs: "run_operations p (tr @ [ClientQuery ''BEGIN'' None]) [] ops
           = (Inr rs, (tr @ [ClientQuery ''BEGIN'' None]) @ map issued ops)"
        "length rs = length ops"
        "\<forall>i<length ops. outcome_at p (tr @ [ClientQuery ''BEGIN'' None]) ops i = Inr (rs ! i)"
    by auto
  from assms(1,3) rs(1) have
    "tx_body p tr ops =
       (Inr rs, tr @ [ClientQuery ''BEGIN'' None] @ map issued ops @ [ClientQuery ''COMMIT'' None])"
    by (simp add: tx_body_def)
  with rs(2,3) show ?thesis by blast
qed

lemma tx_body_trace:
  "\<exists>qs. snd (tx_body p tr ops) = tr @ qs \<and> list_all is_statement qs"
proof -
  obtain n where n: "snd (run_operations p (tr @ [ClientQuery ''BEGIN'' None]) [] ops)
      = (tr @ [ClientQuery ''BEGIN'' None]) @ map issued (take n ops)"
    using run_operations_trace by blast
  have st: "list_all is_statement (map issued (take n ops))"
    by (simp add: list_all_iff issued_def)
  show ?thesis
  proof (cases "client_query p tr ''BEGIN'' None")
    case (Inl e)
    then have "snd (tx_body p tr ops) = tr @ [ClientQuery ''BEGIN'' None]"
      by (simp add: tx_body_def)
    then show ?thesis by (intro exI [of _ "[ClientQuery ''BEGIN'' None]"]) simp
  next
    case (Inr b)
    obtain r tr' where run: "run_operations p (tr @ [ClientQuery ''BEGIN'' None]) [] ops = (r, tr')"
      by (cases "run_operations p (tr @ [ClientQuery ''BEGIN'' None]) [] ops")
    with n have tr': "tr' = tr @ ClientQuery ''BEGIN'' None # map issued (take n ops)"
      by simp
    show ?thesis
    proof (cases r)
      case (Inl e)
      with Inr run tr' have "snd (tx_body p tr ops) = tr @ ClientQuery ''BEGIN'' None # map issued (take n ops)"
        by (simp add: tx_body_def)
      with st show ?thesis
        by (intro exI [of _ "ClientQuery ''BEGIN'' None # map issued (take n ops)"]) simp
    next
      case (Inr rs)
      with \<open>client_query p tr ''BEGIN'' None = Inr b\<close> run tr'
      have "snd (tx_body p tr ops)
              = tr @ ClientQuery ''BEGIN'' None # map issued (take n ops) @ [ClientQuery ''COMMIT'' None]"
        by (auto simp: tx_body_def split: sum.splits)
      with st show ?thesis
        by (intro exI [of _ "ClientQuery ''BEGIN'' None # map issued (take n ops) @ [ClientQuery ''COMMIT'' None]"]) simp
    qed
  qed
qed

section \<open>The lease\<close>

lemma released_once_statements:
  assumes "list_all is_statement qs"
  shows "released_once (PoolConnect # qs @ [ClientRelease])"
proof -
  have "PoolConnect \<notin> set qs" "ClientRelease \<notin> set qs"
    using assms by (auto simp: list_all_iff)
  then have "count_list qs PoolConnect = 0" "count_list qs ClientRelease = 0"
    by (simp_all add: count_list_0_iff)
  then show ?thesis
    by (simp add: released_once_def)
qed

lemma transaction_trace:
  assumes "pool db = Some p" and "pool_connect p [] = Inr u"
  shows "\<exists>qs. snd (transaction db ops) = PoolConnect # qs @ [ClientRelease] \<and> list_all is_statement qs"
proof -
  obtain r tr where body: "tx_body p [PoolConnect] ops = (r, tr)"
    by (cases "tx_body p [PoolConnect] ops")
  with tx_body_trace [of p "[PoolConnect]" ops] obtain qs where
    qs: "tr = PoolConnect # qs" "list_all is_statement qs"
    by auto
  show ?thesis
  proof (cases r)
    case (Inr rs)
    with assms body qs(1) have "snd (transaction db ops) = PoolConnect # qs @ [ClientRelease]"
      by (simp add: transaction_def)
    with qs(2) show ?thesis by blast
  next
    case (Inl e)
    with assms body qs(1) have
      "snd (transaction db ops) = PoolConnect # (qs @ [ClientQuery ''ROLLBACK'' None]) @ [ClientRelease]"
      by (simp add: transaction_def rollback_def split: sum.splits)
    moreover have "list_all is_statement (qs @ [ClientQuery ''ROLLBACK'' None])"
      using qs(2) by simp
    ultimately show ?thesis by blast
  qed
qed

text \<open>
  C6. Once \<open>pool.connect()\<close> has leased a client, \<open>query\<close>, \<open>operation\<close> and
  \<open>transaction\<close> release it exactly once, as their last call to the pool, whatever
  the pool answers to the statements and whatever the marshallers do: after a normal
  return, a rejected statement, a rollback that succeeds or fails, and a marshaller
  that throws. Every call leases, except a \<open>query\<close> or \<open>operation\<close> whose arguments
  cannot be read: that one throws before it touches the pool, so there is no lease to
  release.
\<close>

theorem lease_released_once:
  assumes "pool db = Some p" and "pool_connect p [] = Inr u"
  shows "(if query_args_readable opts
          then released_once (snd (query db stmt opts))
          else snd (query db stmt opts) = [])
       \<and> (if operation_args_readable operation_arg opts
          then released_once (snd (operation db operation_arg opts))
          else snd (operation db operation_arg opts) = [])
       \<and> released_once (snd (transaction db operations))"
proof -
  have q: "released_once (snd (query db stmt opts))" if ok: "query_args_readable opts"
  proof -
    from ok obtain v where v: "read_opts_parameters opts = Inr v"
      by (cases opts) (simp_all add: query_args_readable_def read_opts_parameters_def)
    have "snd (query db stmt opts)
        = PoolConnect # [ClientQuery stmt (statement_args
             (case v of Data (JArr xs) \<Rightarrow> Some xs | _ \<Rightarrow> None))] @ [ClientRelease]"
      using assms v by (simp add: query_def Let_def split: sum.splits)
    then show ?thesis
      by (simp only:) (rule released_once_statements, simp)
  qed
  have q': "snd (query db stmt opts) = []" if "\<not> query_args_readable opts"
    using that
    by (cases opts) (simp_all add: query_args_readable_def query_def read_opts_parameters_def)
  have o: "released_once (snd (operation db operation_arg opts))"
    if ok: "operation_args_readable operation_arg opts"
  proof -
    from ok obtain op where op: "operation_arg = Arg op" and "query_args_readable opts"
      by (cases operation_arg) (simp_all add: operation_args_readable_def)
    then obtain v where v: "read_opts_parameters opts = Inr v"
      by (cases opts) (simp_all add: query_args_readable_def read_opts_parameters_def)
    have "snd (operation db operation_arg opts)
        = PoolConnect # [ClientQuery (statement op) (statement_args
             (case v of Data (JArr xs) \<Rightarrow> Some xs | _ \<Rightarrow> parameters op))] @ [ClientRelease]"
      using assms v op by (simp add: operation_def Let_def split: sum.splits)
    then show ?thesis
      by (simp only:) (rule released_once_statements, simp)
  qed
  have o': "snd (operation db operation_arg opts) = []"
    if "\<not> operation_args_readable operation_arg opts"
    using that
    by (cases operation_arg; cases opts)
       (simp_all add: operation_args_readable_def query_args_readable_def operation_def
          read_opts_parameters_def)
  from transaction_trace [OF assms, of operations] obtain qs where
    "snd (transaction db operations) = PoolConnect # qs @ [ClientRelease]" "list_all is_statement qs"
    by blast
  then have "released_once (snd (transaction db operations))"
    by (simp add: released_once_statements)
  with q q' o o' show ?thesis by simp
qed

theorem lease_released_once_witness:
  "pool (connected reject_B_and_rollback) = Some reject_B_and_rollback
   \<and> pool_connect reject_B_and_rollback [] = Inr ()
   \<and> released_once (snd (query (connected reject_B_and_rollback) ''INSERT B'' ArgUndefined))
   \<and> released_once
        (snd (operation (connected reject_B_and_rollback) (Arg op_throwing) ArgUndefined))
   \<and> released_once (snd (transaction (connected reject_B_and_rollback) [invoke op_A, invoke op_B]))"
proof -
  have h1: "pool (connected reject_B_and_rollback) = Some reject_B_and_rollback"
    by (simp add: connected_def)
  have h2: "pool_connect reject_B_and_rollback [] = Inr ()"
    by (simp add: pool_defs scripted_pool_def)
  from lease_released_once [OF h1 h2, where opts = ArgUndefined and stmt = "''INSERT B''"
      and operation_arg = "Arg op_throwing" and operations = "[invoke op_A, invoke op_B]"] h1 h2
  show ?thesis by (simp add: query_args_readable_def operation_args_readable_def)
qed

section \<open>A transaction that succeeds\<close>

text \<open>
  C7. The client is leased, BEGIN succeeds, every operation's statement succeeds and
  its marshaller (if any) returns, and COMMIT succeeds. Then \<open>transaction\<close> returns
  one entry per invocation, and the entry at index \<open>i\<close> belongs to invocation \<open>i\<close>:
  it is the \<open>DBResult\<close> of that invocation's statement when the operation has no
  marshaller, and what the marshaller returns for that \<open>DBResult\<close> when it has one.
  The statements were issued in the order of the invocations, between BEGIN and COMMIT.
\<close>

theorem transaction_results_aligned:
  assumes "pool db = Some p"
    and "pool_connect p [] = Inr u"
    and "client_query p [PoolConnect] ''BEGIN'' None = Inr b"
    and "\<forall>i<length ops. \<exists>r. outcome_at p begun ops i = Inr r"
    and "client_query p (begun @ map issued ops) ''COMMIT'' None = Inr c"
  shows "\<exists>results.
           transaction db ops
             = (Inr results, begun @ map issued ops @ [ClientQuery ''COMMIT'' None, ClientRelease])
           \<and> length results = length ops
           \<and> (\<forall>i<length ops. \<exists>pg.
                 statement_answer p begun ops i = Inr pg
                 \<and> (case marshaller (inv_operation (ops ! i)) of
                      None \<Rightarrow> results ! i = Raw (unmarshallPgResult pg)
                    | Some m \<Rightarrow> \<exists>v. m (unmarshallPgResult pg) = Inr v \<and> results ! i = Marshalled v))"
proof -
  have beg: "[PoolConnect] @ [ClientQuery ''BEGIN'' None] = begun"
    by (simp add: begun_def)
  from tx_body_ok [of p "[PoolConnect]" b ops c] assms(3,4,5) obtain rs where
    body: "tx_body p [PoolConnect] ops = (Inr rs, begun @ map issued ops @ [ClientQuery ''COMMIT'' None])"
    and len: "length rs = length ops"
    and out: "\<forall>i<length ops. outcome_at p begun ops i = Inr (rs ! i)"
    unfolding begun_def by auto
  have tx: "transaction db ops
      = (Inr rs, begun @ map issued ops @ [ClientQuery ''COMMIT'' None, ClientRelease])"
    using assms(1,2) body by (simp add: transaction_def)
  have each: "\<forall>i<length ops. \<exists>pg.
                 statement_answer p begun ops i = Inr pg
                 \<and> (case marshaller (inv_operation (ops ! i)) of
                      None \<Rightarrow> rs ! i = Raw (unmarshallPgResult pg)
                    | Some m \<Rightarrow> \<exists>v. m (unmarshallPgResult pg) = Inr v \<and> rs ! i = Marshalled v)"
  proof (intro allI impI)
    fix i assume "i < length ops"
    with out have o: "outcome_at p begun ops i = Inr (rs ! i)" by simp
    then obtain pg where pg: "statement_answer p begun ops i = Inr pg"
      and am: "apply_marshaller (marshaller (inv_operation (ops ! i))) (unmarshallPgResult pg) = Inr (rs ! i)"
      by (auto simp: outcome_at_def op_outcome_def statement_answer_def split: sum.splits)
    from am have "case marshaller (inv_operation (ops ! i)) of
                      None \<Rightarrow> rs ! i = Raw (unmarshallPgResult pg)
                    | Some m \<Rightarrow> \<exists>v. m (unmarshallPgResult pg) = Inr v \<and> rs ! i = Marshalled v"
      by (auto simp: apply_marshaller_def split: option.splits sum.splits)
    with pg show "\<exists>pg. statement_answer p begun ops i = Inr pg
                 \<and> (case marshaller (inv_operation (ops ! i)) of
                      None \<Rightarrow> rs ! i = Raw (unmarshallPgResult pg)
                    | Some m \<Rightarrow> \<exists>v. m (unmarshallPgResult pg) = Inr v \<and> rs ! i = Marshalled v)"
      by blast
  qed
  from tx len each show ?thesis by blast
qed

theorem transaction_results_aligned_witness:
  "pool (connected (scripted_pool [])) = Some (scripted_pool [])
   \<and> pool_connect (scripted_pool []) [] = Inr ()
   \<and> client_query (scripted_pool []) [PoolConnect] ''BEGIN'' None = Inr empty_result
   \<and> outcome_at (scripted_pool []) begun [invoke op_A, invoke op_C] 0
        = Inr (Raw \<lparr>rows = JArr [], rowCount = JNum 0, rfields = JArr []\<rparr>)
   \<and> outcome_at (scripted_pool []) begun [invoke op_A, invoke op_C] 1
        = Inr (Marshalled (JArr []))
   \<and> client_query (scripted_pool []) (begun @ map issued [invoke op_A, invoke op_C])
         ''COMMIT'' None = Inr empty_result
   \<and> (\<exists>results.
         transaction (connected (scripted_pool [])) [invoke op_A, invoke op_C]
           = (Inr results,
              [PoolConnect, ClientQuery ''BEGIN'' None, ClientQuery ''INSERT A'' None,
               ClientQuery ''SELECT C'' None, ClientQuery ''COMMIT'' None, ClientRelease])
         \<and> length results = 2
         \<and> results ! 0 = Raw \<lparr>rows = JArr [], rowCount = JNum 0, rfields = JArr []\<rparr>
         \<and> results ! 1 = Marshalled (JArr []))"
proof -
  let ?p = "scripted_pool []"
  let ?ops = "[invoke op_A, invoke op_C]"
  let ?r = "\<lparr>rows = JArr [], rowCount = JNum 0, rfields = JArr []\<rparr>"
  have h1: "pool (connected ?p) = Some ?p"
    by (simp add: connected_def)
  have h2: "pool_connect ?p [] = Inr ()"
    by (simp add: scripted_pool_def)
  have h3: "client_query ?p [PoolConnect] ''BEGIN'' None = Inr empty_result"
    by (simp add: scripted_pool_def)
  have o0: "outcome_at ?p begun ?ops 0 = Inr (Raw ?r)"
    by (simp add: outcome_at_def op_outcome_def example_defs engine_defs)
  have o1: "outcome_at ?p begun ?ops 1 = Inr (Marshalled (JArr []))"
    by (simp add: outcome_at_def op_outcome_def example_defs engine_defs)
  have h4: "\<forall>i<length ?ops. \<exists>r. outcome_at ?p begun ?ops i = Inr r"
    using o0 o1 by (simp add: All_less_Suc)
  have h5: "client_query ?p (begun @ map issued ?ops) ''COMMIT'' None = Inr empty_result"
    by (simp add: scripted_pool_def)
  have tr: "begun @ map issued ?ops @ [ClientQuery ''COMMIT'' None, ClientRelease]
      = [PoolConnect, ClientQuery ''BEGIN'' None, ClientQuery ''INSERT A'' None,
         ClientQuery ''SELECT C'' None, ClientQuery ''COMMIT'' None, ClientRelease]"
    by (simp add: begun_def issued_def tx_args_def tx_parameters_def example_defs)
  have a0: "statement_answer ?p begun ?ops 0 = Inr empty_result"
    by (simp add: statement_answer_def scripted_pool_def)
  have a1: "statement_answer ?p begun ?ops 1 = Inr empty_result"
    by (simp add: statement_answer_def scripted_pool_def)
  have m0: "marshaller (inv_operation (?ops ! 0)) = None"
    by (simp add: example_defs)
  have m1: "marshaller (inv_operation (?ops ! 1)) = Some (\<lambda>r. Inr (rows r))"
    by (simp add: example_defs)
  have u: "unmarshallPgResult empty_result = ?r"
    by (simp add: example_defs engine_defs)
  from transaction_results_aligned [OF h1 h2 h3 h4 h5] obtain results where
    res: "transaction (connected ?p) ?ops
            = (Inr results, begun @ map issued ?ops @ [ClientQuery ''COMMIT'' None, ClientRelease])"
      "length results = length ?ops"
      "\<forall>i<length ?ops. \<exists>pg.
                 statement_answer ?p begun ?ops i = Inr pg
                 \<and> (case marshaller (inv_operation (?ops ! i)) of
                      None \<Rightarrow> results ! i = Raw (unmarshallPgResult pg)
                    | Some m \<Rightarrow> \<exists>v. m (unmarshallPgResult pg) = Inr v \<and> results ! i = Marshalled v)"
    by blast
  have l0: "0 < length ?ops" and l1: "1 < length ?ops"
    by simp_all
  from res(3) [rule_format, OF l0] a0 m0 u have r0: "results ! 0 = Raw ?r"
    by auto
  from res(3) [rule_format, OF l1] a1 m1 u have r1: "results ! 1 = Marshalled (JArr [])"
    by auto
  from res(1,2) tr r0 r1 have
    "\<exists>results.
         transaction (connected ?p) ?ops
           = (Inr results,
              [PoolConnect, ClientQuery ''BEGIN'' None, ClientQuery ''INSERT A'' None,
               ClientQuery ''SELECT C'' None, ClientQuery ''COMMIT'' None, ClientRelease])
         \<and> length results = 2
         \<and> results ! 0 = Raw ?r
         \<and> results ! 1 = Marshalled (JArr [])"
    by auto
  with h1 h2 h3 o0 o1 h5 show ?thesis by blast
qed

section \<open>A transaction that fails\<close>

text \<open>
  C5, as amended. The operation at index \<open>k\<close> (from 0; operation \<open>k + 1\<close> of the
  \<open>N\<close>) is the first whose statement is rejected, with \<open>e\<close>. Then exactly BEGIN and
  the statements of the operations up to and including that one have been issued,
  followed by one ROLLBACK and the release; no later operation and no COMMIT is
  issued, and the call throws, so no results are returned. What it throws is a single
  \<open>QueryExecutionError\<close>: around \<open>e\<close> when the ROLLBACK succeeds, and around the
  ROLLBACK's own error when the ROLLBACK is rejected.
\<close>

theorem first_failure_rolls_back:
  assumes "pool db = Some p"
    and "pool_connect p [] = Inr u"
    and "client_query p [PoolConnect] ''BEGIN'' None = Inr b"
    and "k < length ops"
    and "\<forall>j<k. \<exists>r. outcome_at p begun ops j = Inr r"
    and "statement_answer p begun ops k = Inl e"
  shows "transaction db ops
           = (Inl (case client_query p (begun @ map issued (take (Suc k) ops)) ''ROLLBACK'' None of
                     Inr ok \<Rightarrow> QueryExecutionError transaction_failed_msg (Some e)
                   | Inl r \<Rightarrow> QueryExecutionError rollback_failed_msg (Some r)),
              begun @ map issued (take (Suc k) ops)
                @ [ClientQuery ''ROLLBACK'' None, ClientRelease])"
proof -
  have "outcome_at p ([PoolConnect] @ [ClientQuery ''BEGIN'' None]) ops k = Inl e"
    using outcome_statement_fails [OF assms(6)] by (simp add: begun_def)
  moreover have "\<forall>j<k. \<exists>r. outcome_at p ([PoolConnect] @ [ClientQuery ''BEGIN'' None]) ops j = Inr r"
    using assms(5) by (simp add: begun_def)
  ultimately have body:
    "tx_body p [PoolConnect] ops = (Inl e, begun @ map issued (take (Suc k) ops))"
    using tx_body_fail [OF assms(3,4)] by (simp add: begun_def)
  show ?thesis
    using assms(1,2) body
    by (simp add: transaction_def rollback_def rollback_failed_msg_def
          transaction_failed_msg_def split: sum.splits)
qed

theorem first_failure_rolls_back_witness:
  "pool (connected reject_B) = Some reject_B
   \<and> pool_connect reject_B [] = Inr ()
   \<and> client_query reject_B [PoolConnect] ''BEGIN'' None = Inr empty_result
   \<and> (1::nat) < length [invoke op_A, invoke op_B, invoke op_C]
   \<and> outcome_at reject_B begun [invoke op_A, invoke op_B, invoke op_C] 0
        = Inr (Raw \<lparr>rows = JArr [], rowCount = JNum 0, rfields = JArr []\<rparr>)
   \<and> statement_answer reject_B begun [invoke op_A, invoke op_B, invoke op_C] 1
        = Inl (JsError ''duplicate key'')
   \<and> transaction (connected reject_B) [invoke op_A, invoke op_B, invoke op_C]
        = (Inl (QueryExecutionError transaction_failed_msg (Some (JsError ''duplicate key''))),
           [PoolConnect, ClientQuery ''BEGIN'' None, ClientQuery ''INSERT A'' None,
            ClientQuery ''INSERT B'' None, ClientQuery ''ROLLBACK'' None, ClientRelease])"
proof -
  let ?ops = "[invoke op_A, invoke op_B, invoke op_C]"
  have h1: "pool (connected reject_B) = Some reject_B"
    by (simp add: connected_def)
  have h2: "pool_connect reject_B [] = Inr ()"
    by (simp add: pool_defs scripted_pool_def)
  have h3: "client_query reject_B [PoolConnect] ''BEGIN'' None = Inr empty_result"
    by (simp add: pool_defs scripted_pool_def)
  have h4: "(1::nat) < length ?ops"
    by simp
  have o0: "outcome_at reject_B begun ?ops 0
        = Inr (Raw \<lparr>rows = JArr [], rowCount = JNum 0, rfields = JArr []\<rparr>)"
    by (simp add: outcome_at_def op_outcome_def pool_defs example_defs engine_defs)
  then have h5: "\<forall>j<1. \<exists>r. outcome_at reject_B begun ?ops j = Inr r"
    by simp
  have h6: "statement_answer reject_B begun ?ops 1 = Inl (JsError ''duplicate key'')"
    by (simp add: statement_answer_def pool_defs example_defs)
  have rb: "client_query reject_B (begun @ map issued (take (Suc 1) ?ops)) ''ROLLBACK'' None
              = Inr empty_result"
    by (simp add: pool_defs scripted_pool_def)
  have tr: "begun @ map issued (take (Suc 1) ?ops) @ [ClientQuery ''ROLLBACK'' None, ClientRelease]
      = [PoolConnect, ClientQuery ''BEGIN'' None, ClientQuery ''INSERT A'' None,
            ClientQuery ''INSERT B'' None, ClientQuery ''ROLLBACK'' None, ClientRelease]"
    by (simp add: begun_def issued_def tx_args_def tx_parameters_def example_defs)
  from first_failure_rolls_back [OF h1 h2 h3 h4 h5 h6] rb tr
  have "transaction (connected reject_B) ?ops
        = (Inl (QueryExecutionError transaction_failed_msg (Some (JsError ''duplicate key''))),
           [PoolConnect, ClientQuery ''BEGIN'' None, ClientQuery ''INSERT A'' None,
            ClientQuery ''INSERT B'' None, ClientQuery ''ROLLBACK'' None, ClientRelease])"
    by simp
  with h1 h2 h3 h4 o0 h6 show ?thesis by blast
qed

text \<open>
  Counted from 1, as operation \<open>k + 1\<close>, these are \<open>k + 2\<close> statements before the
  ROLLBACK: BEGIN and the first \<open>k + 1\<close> operations.
\<close>

lemma statements_before_rollback:
  assumes "k < length ops"
  shows "length (filter is_statement (begun @ map issued (take (Suc k) ops))) = k + 2"
proof -
  have "filter is_statement (map issued (take (Suc k) ops)) = map issued (take (Suc k) ops)"
    by (simp add: filter_map comp_def issued_def)
  with assms show ?thesis
    by (simp add: begun_def)
qed

text \<open>
  The claim without the amendment fails when the ROLLBACK is rejected too: the second
  of three operations fails with \<open>duplicate key\<close>, the ROLLBACK with
  \<open>connection terminated\<close>, and the error thrown wraps the latter.
\<close>

theorem wraps_original_cause_counterexample:
  "statement_answer reject_B_and_rollback begun [invoke op_A, invoke op_B, invoke op_C] 1
     = Inl (JsError ''duplicate key'')
   \<and> transaction (connected reject_B_and_rollback) [invoke op_A, invoke op_B, invoke op_C]
       = (Inl (QueryExecutionError rollback_failed_msg (Some (JsError ''connection terminated''))),
          [PoolConnect, ClientQuery ''BEGIN'' None, ClientQuery ''INSERT A'' None,
           ClientQuery ''INSERT B'' None, ClientQuery ''ROLLBACK'' None, ClientRelease])
   \<and> \<not> raises_with_cause
         (transaction (connected reject_B_and_rollback) [invoke op_A, invoke op_B, invoke op_C])
         (JsError ''duplicate key'')"
  by (simp add: statement_answer_def raises_with_cause_def begun_def rollback_failed_msg_def
        pool_defs example_defs engine_defs)

text \<open>
  C4, as amended. Something in the \<open>try\<close> fails with \<open>e\<close> after the events \<open>tr\<close>
  (BEGIN, a statement, a marshaller or COMMIT), and the ROLLBACK that follows is
  rejected with \<open>r\<close>. Then the call throws the rollback's own
  \<open>QueryExecutionError\<close> around \<open>r\<close>, and the client is released. The error thrown
  is the same whatever \<open>e\<close> was.
\<close>

theorem rollback_failure_surfaced:
  assumes "pool db = Some p"
    and "pool_connect p [] = Inr u"
    and "tx_body p [PoolConnect] ops = (Inl e, tr)"
    and "client_query p tr ''ROLLBACK'' None = Inl r"
  shows "transaction db ops
           = (Inl (QueryExecutionError rollback_failed_msg (Some r)),
              tr @ [ClientQuery ''ROLLBACK'' None, ClientRelease])"
  using assms
  by (simp add: transaction_def rollback_def rollback_failed_msg_def)

theorem rollback_failure_surfaced_witness:
  "pool (connected reject_B_and_rollback) = Some reject_B_and_rollback
   \<and> pool_connect reject_B_and_rollback [] = Inr ()
   \<and> tx_body reject_B_and_rollback [PoolConnect] [invoke op_A, invoke op_B]
        = (Inl (JsError ''duplicate key''),
           [PoolConnect, ClientQuery ''BEGIN'' None, ClientQuery ''INSERT A'' None,
            ClientQuery ''INSERT B'' None])
   \<and> client_query reject_B_and_rollback
        [PoolConnect, ClientQuery ''BEGIN'' None, ClientQuery ''INSERT A'' None,
         ClientQuery ''INSERT B'' None] ''ROLLBACK'' None
        = Inl (JsError ''connection terminated'')
   \<and> transaction (connected reject_B_and_rollback) [invoke op_A, invoke op_B]
        = (Inl (QueryExecutionError rollback_failed_msg (Some (JsError ''connection terminated''))),
           [PoolConnect, ClientQuery ''BEGIN'' None, ClientQuery ''INSERT A'' None,
            ClientQuery ''INSERT B'' None, ClientQuery ''ROLLBACK'' None, ClientRelease])"
proof -
  let ?p = reject_B_and_rollback
  let ?tr = "[PoolConnect, ClientQuery ''BEGIN'' None, ClientQuery ''INSERT A'' None,
              ClientQuery ''INSERT B'' None]"
  have h1: "pool (connected ?p) = Some ?p"
    by (simp add: connected_def)
  have h2: "pool_connect ?p [] = Inr ()"
    by (simp add: pool_defs scripted_pool_def)
  have h3: "tx_body ?p [PoolConnect] [invoke op_A, invoke op_B] = (Inl (JsError ''duplicate key''), ?tr)"
    by (simp add: pool_defs example_defs engine_defs)
  have h4: "client_query ?p ?tr ''ROLLBACK'' None = Inl (JsError ''connection terminated'')"
    by (simp add: pool_defs scripted_pool_def)
  from rollback_failure_surfaced [OF h1 h2 h3 h4] h1 h2 h3 h4
  show ?thesis by simp
qed

text \<open>
  The original cause is not kept: two runs whose second operation fails with
  different errors, and whose ROLLBACK fails alike, throw the same error, and the
  original error is not among the causes of what is thrown.
\<close>

theorem original_cause_masked_counterexample:
  "statement_answer reject_B_and_rollback begun [invoke op_A, invoke op_B] 1
     = Inl (JsError ''duplicate key'')
   \<and> statement_answer deadlock_B_and_rollback begun [invoke op_A, invoke op_B] 1
     = Inl (JsError ''deadlock detected'')
   \<and> fst (transaction (connected reject_B_and_rollback) [invoke op_A, invoke op_B])
     = Inl (QueryExecutionError rollback_failed_msg (Some (JsError ''connection terminated'')))
   \<and> fst (transaction (connected deadlock_B_and_rollback) [invoke op_A, invoke op_B])
     = fst (transaction (connected reject_B_and_rollback) [invoke op_A, invoke op_B])
   \<and> JsError ''duplicate key''
       \<notin> set (cause_chain
                (QueryExecutionError rollback_failed_msg (Some (JsError ''connection terminated''))))"
  by (simp add: statement_answer_def begun_def rollback_failed_msg_def
        pool_defs example_defs engine_defs)

end
